theory Spec2Isabelle
  imports Complex_Main "HOL-Library.Sublist" "HOL-Library.Word"
begin

text \<open>
  A model of the rate-limit webview of the extension: the colour allow-list of
  \<open>utils/sanitize.ts\<close> and the class \<open>RateLimitWebView\<close>. The source files hold two
  revisions of each, one after the other; the later one is modelled (the allow-list with
  the three patterns, the class with \<open>_clampPercentage\<close> and the width rules).
\<close>

section \<open>JavaScript strings\<close>

text \<open>
  A JavaScript string is a sequence of UTF-16 code units; \<open>length\<close> counts code units.
  A code unit is modelled as a natural number, a string as a list of them. ASCII
  literals of the source are written \<open>str ''...''\<close>.
\<close>

type_synonym jschar = nat
type_synonym jsstring = "jschar list"

definition str :: "string \<Rightarrow> jsstring" where
  "str s = map of_char s"

text \<open>A character class of a regular expression: a list of inclusive code-unit ranges.\<close>

type_synonym cclass = "(jschar \<times> jschar) list"

definition in_class :: "cclass \<Rightarrow> jschar \<Rightarrow> bool" where
  "in_class k c = list_ex (\<lambda>(lo, hi). lo \<le> c \<and> c \<le> hi) k"

text \<open>
  The class \<open>\s\<close> of ECMAScript: WhiteSpace and LineTerminator, that is TAB, LF, VT, FF,
  CR, SP, U+00A0, U+1680, U+2000..U+200A, U+2028, U+2029, U+202F, U+205F, U+3000, U+FEFF.
  \<open>String.prototype.trim\<close> strips exactly these code units from both ends.
\<close>

definition WS :: cclass where
  "WS = [(9, 13), (32, 32), (160, 160), (5760, 5760), (8192, 8202), (8232, 8233),
         (8239, 8239), (8287, 8287), (12288, 12288), (65279, 65279)]"

definition trim :: "jsstring \<Rightarrow> jsstring" where
  "trim s = rev (dropWhile (in_class WS) (rev (dropWhile (in_class WS) s)))"

section \<open>Regular expressions of \<open>utils/sanitize.ts\<close>\<close>

text \<open>
  The patterns of the source use character classes, concatenation, alternation, the empty
  word (for \<open>?\<close>) and repetition of a single character class (\<open>\s*\<close>, \<open>\d+\<close>, \<open>0+\<close>).
  \<open>pm r s\<close> lists, for every way \<open>r\<close> can match a prefix of \<open>s\<close>, what is left of \<open>s\<close>;
  a pattern anchored with \<open>^\<close> and \<open>$\<close> (no flags) accepts \<open>s\<close> when the empty rest is
  among them.
\<close>

datatype rx = Eps | Cls cclass | Seq rx rx | Alt rx rx | Many cclass

fun many :: "cclass \<Rightarrow> jsstring \<Rightarrow> jsstring list" where
  "many k [] = [[]]"
| "many k (c # t) = (if in_class k c then many k t else []) @ [c # t]"

fun pm :: "rx \<Rightarrow> jsstring \<Rightarrow> jsstring list" where
  "pm Eps s = [s]"
| "pm (Cls k) [] = []"
| "pm (Cls k) (c # t) = (if in_class k c then [t] else [])"
| "pm (Seq a b) s = concat (map (pm b) (pm a s))"
| "pm (Alt a b) s = pm a s @ pm b s"
| "pm (Many k) s = many k s"

definition regex_test :: "rx \<Rightarrow> jsstring \<Rightarrow> bool" where
  "regex_test r s = ([] \<in> set (pm r s))"

text \<open>Pattern combinators: a literal character, a literal word, \<open>r?\<close>, \<open>[k]+\<close>, \<open>r{n}\<close>,
  and the concatenation of a list of patterns.\<close>

definition lit :: "char \<Rightarrow> rx" where
  "lit c = Cls [(of_char c, of_char c)]"

definition seqs :: "rx list \<Rightarrow> rx" where
  "seqs rs = foldr Seq rs Eps"

definition lits :: "string \<Rightarrow> rx" where
  "lits w = seqs (map lit w)"

definition opt :: "rx \<Rightarrow> rx" where
  "opt r = Alt r Eps"

definition many1 :: "cclass \<Rightarrow> rx" where
  "many1 k = Seq (Cls k) (Many k)"

definition rep :: "nat \<Rightarrow> rx \<Rightarrow> rx" where
  "rep n r = seqs (replicate n r)"

definition DIGIT :: cclass where  \<comment> \<open>\<open>\d\<close> and \<open>[0-9]\<close>\<close>
  "DIGIT = [(48, 57)]"

definition HEXDIGIT :: cclass where  \<comment> \<open>\<open>[a-fA-F0-9]\<close>\<close>
  "HEXDIGIT = [(97, 102), (65, 70), (48, 57)]"

definition ZERO :: cclass where  \<comment> \<open>the character \<open>0\<close>\<close>
  "ZERO = [(48, 48)]"

text \<open>\<open>/^#(?:[a-fA-F0-9]{3}|[a-fA-F0-9]{6}|[a-fA-F0-9]{8})$/\<close>\<close>

definition HEX_COLOR_PATTERN :: rx where
  "HEX_COLOR_PATTERN =
     Seq (lit CHR ''#'')
       (Alt (rep 3 (Cls HEXDIGIT)) (Alt (rep 6 (Cls HEXDIGIT)) (rep 8 (Cls HEXDIGIT))))"

text \<open>\<open>(?:[01]?\d?\d|2[0-4]\d|25[0-5])\<close>\<close>

definition RGB_NUMBER :: rx where
  "RGB_NUMBER =
     Alt (seqs [opt (Cls [(48, 49)]), opt (Cls DIGIT), Cls DIGIT])
       (Alt (seqs [lit CHR ''2'', Cls [(48, 52)], Cls DIGIT])
            (seqs [lits ''25'', Cls [(48, 53)]]))"

text \<open>\<open>(?:0|0?\.\d+|1(?:\.0+)?)\<close>\<close>

definition ALPHA_VALUE :: rx where
  "ALPHA_VALUE =
     Alt (lit CHR ''0'')
       (Alt (seqs [opt (lit CHR ''0''), lit CHR ''.'', many1 DIGIT])
            (seqs [lit CHR ''1'', opt (seqs [lit CHR ''.'', many1 ZERO])]))"

text \<open>\<open>^rgba?\(\s*N\s*,\s*N\s*,\s*N(?:\s*,\s*A)?\s*\)$\<close> with \<open>N\<close> = \<open>RGB_NUMBER\<close>,
  \<open>A\<close> = \<open>ALPHA_VALUE\<close>.\<close>

definition RGB_COLOR_PATTERN :: rx where
  "RGB_COLOR_PATTERN =
     seqs [lits ''rgb'', opt (lit CHR ''a''), lit CHR ''('',
           Many WS, RGB_NUMBER, Many WS, lit CHR '','',
           Many WS, RGB_NUMBER, Many WS, lit CHR '','',
           Many WS, RGB_NUMBER,
           opt (seqs [Many WS, lit CHR '','', Many WS, ALPHA_VALUE]),
           Many WS, lit CHR '')'']"

text \<open>\<open>(?:360(?:\.0+)?|3[0-5]\d(?:\.\d+)?|[12]?\d?\d(?:\.\d+)?)\<close>\<close>

definition HUE_COMPONENT :: rx where
  "HUE_COMPONENT =
     Alt (seqs [lits ''360'', opt (seqs [lit CHR ''.'', many1 ZERO])])
       (Alt (seqs [lit CHR ''3'', Cls [(48, 53)], Cls DIGIT,
                   opt (seqs [lit CHR ''.'', many1 DIGIT])])
            (seqs [opt (Cls [(49, 50)]), opt (Cls DIGIT), Cls DIGIT,
                   opt (seqs [lit CHR ''.'', many1 DIGIT])]))"

text \<open>\<open>(?:100|[0-9]{1,2})(?:\.\d+)?%\<close>\<close>

definition HSL_PERCENT :: rx where
  "HSL_PERCENT =
     seqs [Alt (lits ''100'') (seqs [Cls DIGIT, opt (Cls DIGIT)]),
           opt (seqs [lit CHR ''.'', many1 DIGIT]),
           lit CHR ''%'']"

text \<open>\<open>^hsla?\(\s*H\s*,\s*P\s*,\s*P(?:\s*,\s*A)?\s*\)$\<close>, parametrised by the pattern of
  a percentage; the source instantiates it with \<open>HSL_PERCENT\<close>.\<close>

definition hsl_pattern :: "rx \<Rightarrow> rx" where
  "hsl_pattern P =
     seqs [lits ''hsl'', opt (lit CHR ''a''), lit CHR ''('',
           Many WS, HUE_COMPONENT, Many WS, lit CHR '','',
           Many WS, P, Many WS, lit CHR '','',
           Many WS, P,
           opt (seqs [Many WS, lit CHR '','', Many WS, ALPHA_VALUE]),
           Many WS, lit CHR '')'']"

definition HSL_COLOR_PATTERN :: rx where
  "HSL_COLOR_PATTERN = hsl_pattern HSL_PERCENT"

section \<open>\<open>sanitizeColor\<close>\<close>

text \<open>The input is \<open>string | undefined\<close>; \<open>!input\<close> holds for \<open>undefined\<close> and for the
  empty string.\<close>

definition sanitizeColor :: "jsstring option \<Rightarrow> jsstring \<Rightarrow> jsstring" where
  "sanitizeColor input fallback =
     (case input of
        None \<Rightarrow> fallback
      | Some s \<Rightarrow>
          if s = [] then fallback
          else
            let trimmed = trim s in
            if length trimmed > 50 then fallback
            else if regex_test HEX_COLOR_PATTERN trimmed
                   \<or> regex_test RGB_COLOR_PATTERN trimmed
                   \<or> regex_test HSL_COLOR_PATTERN trimmed
            then trimmed
            else fallback)"

text \<open>
  The grammar of a percentage as the specification words it, a value in \<open>[0,100]\<close>:
  \<open>100\<close> may be followed by a fraction of zeros only, one or two digits by any fraction.
  It is used to state which hsl strings are promised to be accepted.
\<close>

definition HSL_PERCENT_bounded :: rx where
  "HSL_PERCENT_bounded =
     seqs [Alt (seqs [lits ''100'', opt (seqs [lit CHR ''.'', many1 ZERO])])
               (seqs [Cls DIGIT, opt (Cls DIGIT), opt (seqs [lit CHR ''.'', many1 DIGIT])]),
           lit CHR ''%'']"




section \<open>Numbers\<close>

text \<open>
  A JavaScript number is NaN, an infinity or a finite value. The code below only compares
  numbers and returns its argument or a constant, so a finite value is modelled by the
  real it denotes (both zeros are \<open>Fin 0\<close>). The relational operators are false whenever
  an operand is NaN; \<open>Math.min\<close> and \<open>Math.max\<close> return NaN then.
\<close>

datatype jsnum = NaN | PosInf | NegInf | Fin real

fun js_le :: "jsnum \<Rightarrow> jsnum \<Rightarrow> bool" where
  "js_le NaN _ = False"
| "js_le _ NaN = False"
| "js_le NegInf _ = True"
| "js_le _ PosInf = True"
| "js_le (Fin a) (Fin b) = (a \<le> b)"
| "js_le _ _ = False"

definition js_ge :: "jsnum \<Rightarrow> jsnum \<Rightarrow> bool" where
  "js_ge a b = js_le b a"

definition Math_min :: "jsnum \<Rightarrow> jsnum \<Rightarrow> jsnum" where
  "Math_min a b = (if a = NaN \<or> b = NaN then NaN else if js_le a b then a else b)"

definition Math_max :: "jsnum \<Rightarrow> jsnum \<Rightarrow> jsnum" where
  "Math_max a b = (if a = NaN \<or> b = NaN then NaN else if js_le a b then b else a)"

definition Number_isFinite :: "jsnum \<Rightarrow> bool" where
  "Number_isFinite x = (case x of Fin _ \<Rightarrow> True | _ \<Rightarrow> False)"

section \<open>The webview class: helpers\<close>

text \<open>Private methods of the source are named without their leading underscore.\<close>

definition clampPercentage :: "jsnum \<Rightarrow> jsnum" where
  "clampPercentage v =
     (if \<not> Number_isFinite v then Fin 0
      else Math_max (Fin 0) (Math_min (Fin 100) v))"

definition getProgressClass :: "jsnum \<Rightarrow> bool \<Rightarrow> jsstring" where
  "getProgressClass percentage outdated = (if outdated then str ''outdated'' else [])"

text \<open>
  The workspace configuration section \<open>codexRatelimit\<close>: a key is either set or not, and
  \<open>config.get(key, default)\<close> yields the default for a key that is not set.
\<close>

record config =
  color_warningColor :: "jsstring option"
  color_criticalColor :: "jsstring option"
  color_warningThreshold :: "jsnum option"
  color_criticalThreshold :: "jsnum option"

definition config_get :: "'a option \<Rightarrow> 'a \<Rightarrow> 'a" where
  "config_get v d = (case v of None \<Rightarrow> d | Some x \<Rightarrow> x)"

definition getUsageClass :: "config \<Rightarrow> jsnum \<Rightarrow> bool \<Rightarrow> jsstring" where
  "getUsageClass cfg percentage outdated =
     (if outdated then str ''outdated''
      else
        let warningThreshold = config_get (color_warningThreshold cfg) (Fin 70);
            criticalThreshold = config_get (color_criticalThreshold cfg) (Fin 90)
        in if js_ge percentage criticalThreshold then str ''high''
           else if js_ge percentage warningThreshold then str ''medium''
           else str ''low'')"

text \<open>
  \<open>value.replace(/[&<>"']/g, f)\<close> replaces every code unit of the class by what \<open>f\<close>
  returns for it and keeps the others. \<open>escape_char\<close> is the \<open>switch\<close> of the callback.
\<close>

definition replace_class :: "cclass \<Rightarrow> (jschar \<Rightarrow> jsstring) \<Rightarrow> jsstring \<Rightarrow> jsstring" where
  "replace_class k f s = concat (map (\<lambda>c. if in_class k c then f c else [c]) s)"

definition HTML_SPECIAL :: cclass where  \<comment> \<open>\<open>[&<>"']\<close>\<close>
  "HTML_SPECIAL = [(38, 38), (60, 60), (62, 62), (34, 34), (39, 39)]"

definition escape_char :: "jschar \<Rightarrow> jsstring" where
  "escape_char c =
     (if c = 38 then str ''&amp;''  \<comment> \<open>\<open>&\<close>\<close>
      else if c = 60 then str ''&lt;''  \<comment> \<open>\<open><\<close>\<close>
      else if c = 62 then str ''&gt;''  \<comment> \<open>\<open>>\<close>\<close>
      else if c = 34 then str ''&quot;''  \<comment> \<open>the double quote\<close>
      else if c = 39 then str ''&#39;''  \<comment> \<open>the single quote\<close>
      else [c])"

definition escapeHtml :: "jsstring \<Rightarrow> jsstring" where
  "escapeHtml v = replace_class HTML_SPECIAL escape_char v"

text \<open>
  \<open>crypto.randomBytes(16).toString('hex')\<close>: the bytes are the random source's answer,
  an input of the model; each byte gives two lower-case hexadecimal digits.
\<close>

definition hex_digit :: "nat \<Rightarrow> jschar" where
  "hex_digit n = (if n < 10 then 48 + n else 87 + n)"

definition toString_hex :: "8 word list \<Rightarrow> jsstring" where
  "toString_hex bytes =
     concat (map (\<lambda>b. [hex_digit (unat b div 16), hex_digit (unat b mod 16)]) bytes)"

definition generateNonce :: "8 word list \<Rightarrow> jsstring" where
  "generateNonce randomBytes16 = toString_hex randomBytes16"

section \<open>Joining strings\<close>

definition join :: "jsstring \<Rightarrow> jsstring list \<Rightarrow> jsstring" where
  "join sep xs = (case xs of [] \<Rightarrow> [] | x # rest \<Rightarrow> x @ concat (map (\<lambda>y. sep @ y) rest))"

definition lines :: "jsstring list \<Rightarrow> jsstring" where
  "lines xs = join [10] xs"

section \<open>Markup\<close>

text \<open>
  Each template literal of the source is a function of the values interpolated into it;
  the list holds its lines, joined by line feeds.
\<close>

definition primary_markup ::
    "jsstring \<Rightarrow> jsstring \<Rightarrow> jsstring \<Rightarrow> jsstring \<Rightarrow> jsstring \<Rightarrow> jsstring \<Rightarrow>
     jsstring" where
  \<open>primary_markup timeClass timeText resetTimeStr outdatedStr usageClass usageText =
     lines
      [[],
       str ''        <div class="progress-section">'',
       str ''          <div class="progress-header">'' @ [55357, 56960] @
         str '' 5-Hour Session</div>'',
       str ''          <div class="progress-bar-container">'',
       str ''            <div class="progress-bar">'',
       str ''              <div class="progress-label">SESSION TIME</div>'',
       str ''              <div class="progress-track">'',
       str ''                <div class="progress-fill time '' @ timeClass @
         str ''" id="primary-time-fill"></div>'',
       str ''              </div>'',
       str ''              <div class="progress-percentage">'' @ timeText @ str ''</div>'',
       str ''            </div>'',
       str ''            <div class="progress-details">Reset: '' @ resetTimeStr @ outdatedStr @
         str ''</div>'',
       [],
       str ''            <div class="progress-bar">'',
       str ''              <div class="progress-label">5H USAGE</div>'',
       str ''              <div class="progress-track">'',
       str ''                <div class="progress-fill usage '' @ usageClass @
         str ''" id="primary-usage-fill"></div>'',
       str ''              </div>'',
       str ''              <div class="progress-percentage">'' @ usageText @ str ''</div>'',
       str ''            </div>'',
       str ''          </div>'',
       str ''        </div>'',
       str ''      '']\<close>

definition secondary_markup ::
    "jsstring \<Rightarrow> jsstring \<Rightarrow> jsstring \<Rightarrow> jsstring \<Rightarrow> jsstring \<Rightarrow> jsstring \<Rightarrow>
     jsstring" where
  \<open>secondary_markup timeClass timeText resetTimeStr outdatedStr usageClass usageText =
     lines
      [[],
       str ''        <div class="progress-section">'',
       str ''          <div class="progress-header">'' @ [55357, 56517] @
         str '' Weekly Limit</div>'',
       str ''          <div class="progress-bar-container">'',
       str ''            <div class="progress-bar">'',
       str ''              <div class="progress-label">WEEKLY TIME</div>'',
       str ''              <div class="progress-track">'',
       str ''                <div class="progress-fill time '' @ timeClass @
         str ''" id="secondary-time-fill"></div>'',
       str ''              </div>'',
       str ''              <div class="progress-percentage">'' @ timeText @ str ''</div>'',
       str ''            </div>'',
       str ''            <div class="progress-details">Reset: '' @ resetTimeStr @ outdatedStr @
         str ''</div>'',
       [],
       str ''            <div class="progress-bar">'',
       str ''              <div class="progress-label">WEEKLY USAGE</div>'',
       str ''              <div class="progress-track">'',
       str ''                <div class="progress-fill usage '' @ usageClass @
         str ''" id="secondary-usage-fill"></div>'',
       str ''              </div>'',
       str ''              <div class="progress-percentage">'' @ usageText @ str ''</div>'',
       str ''            </div>'',
       str ''          </div>'',
       str ''        </div>'',
       str ''      '']\<close>

definition html_markup ::
    "jsstring \<Rightarrow> jsstring \<Rightarrow> jsstring \<Rightarrow> jsstring \<Rightarrow> jsstring \<Rightarrow> jsstring \<Rightarrow>
     jsstring \<Rightarrow> jsstring \<Rightarrow> jsstring \<Rightarrow> jsstring \<Rightarrow> jsstring" where
  \<open>html_markup csp styleUri nonce warningColor criticalColor widthRulesText progressSection
       totalText lastText currentTimeStr =
     lines
      [str ''<!DOCTYPE html>'',
       str ''    <html lang="en">'',
       str ''    <head>'',
       str ''      <meta charset="UTF-8">'',
       str ''      <meta name="viewport" content="width=device-width, initial-scale=1.0">'',
       str ''      <meta http-equiv="Content-Security-Policy" content="'' @ csp @ str ''">'',
       str ''      <title>Codex Rate Limit Details</title>'',
       str ''      <link href="'' @ styleUri @ str ''" rel="stylesheet">'',
       str ''      <style nonce="'' @ nonce @ str ''">'',
       str ''        .progress-fill.usage.medium {'',
       str ''          background-color: '' @ warningColor @ str '' !important;'',
       str ''        }'',
       str ''        .progress-fill.usage.high {'',
       str ''          background-color: '' @ criticalColor @ str '' !important;'',
       str ''        }'',
       str ''        '' @ widthRulesText,
       str ''      </style>'',
       str ''    </head>'',
       str ''    <body>'',
       str ''      <div class="container">'',
       str ''        <div class="header">'',
       str ''          CODEX RATELIMIT - LIVE USAGE MONITOR'',
       str ''        </div>'',
       [],
       str ''        '' @ progressSection,
       [],
       str ''        <div class="token-usage">'',
       str ''          <h3>'' @ [55357, 56522] @ str '' Token Usage Summary</h3>'',
       str ''          <div class="token-line"><strong>Total:</strong> '' @ totalText @
         str ''</div>'',
       str ''          <div class="token-line"><strong>Last:</strong> '' @ lastText @
         str ''</div>'',
       str ''        </div>'',
       [],
       str ''        <div class="refresh-info">'',
       str ''          Last updated: '' @ currentTimeStr @ str ''<br>'',
       str ''          <button id="refreshButton" class="action-button">'',
       str ''            '' @ [55357, 56580] @ str '' Refresh'',
       str ''          </button>'',
       str ''        </div>'',
       str ''      </div>'',
       [],
       str ''      <script nonce="'' @ nonce @ str ''">'',
       str ''        const vscode = acquireVsCodeApi();'',
       [],
       str ''        const refreshButton = document.getElementById('refreshButton');'',
       str ''        refreshButton?.addEventListener('click', () => {'',
       str ''          vscode.postMessage({ command: 'refresh' });'',
       str ''        });'',
       str ''      </script>'',
       str ''    </body>'',
       str ''    </html>'']\<close>

definition error_markup ::
    "jsstring \<Rightarrow> jsstring \<Rightarrow> jsstring \<Rightarrow> jsstring \<Rightarrow> jsstring" where
  \<open>error_markup csp styleUri safeErrorMessage nonce =
     lines
      [str ''<!DOCTYPE html>'',
       str ''    <html lang="en">'',
       str ''    <head>'',
       str ''      <meta charset="UTF-8">'',
       str ''      <meta name="viewport" content="width=device-width, initial-scale=1.0">'',
       str ''      <meta http-equiv="Content-Security-Policy" content="'' @ csp @ str ''">'',
       str ''      <title>Codex Rate Limit Details - Error</title>'',
       str ''      <link href="'' @ styleUri @ str ''" rel="stylesheet">'',
       str ''    </head>'',
       str ''    <body>'',
       str ''      <div class="container">'',
       str ''        <div class="error-state">'',
       str ''          <h2>'' @ [9888, 65039] @ str '' Error</h2>'',
       str ''          <p>'' @ safeErrorMessage @ str ''</p>'',
       str ''          <button id="errorRefreshButton" class="action-button">'',
       str ''            '' @ [55357, 56580] @ str '' Try Again'',
       str ''          </button>'',
       str ''        </div>'',
       str ''      </div>'',
       [],
       str ''      <script nonce="'' @ nonce @ str ''">'',
       str ''        const vscode = acquireVsCodeApi();'',
       [],
       str ''        const errorRefreshButton = document.getElementById('errorRefreshButton');'',
       str ''        errorRefreshButton?.addEventListener('click', () => {'',
       str ''          vscode.postMessage({ command: 'refresh' });'',
       str ''        });'',
       str ''      </script>'',
       str ''    </body>'',
       str ''    </html>'']\<close>


section \<open>Data\<close>

text \<open>
  \<open>RateLimitData\<close> and the result of \<open>getRateLimitData\<close>, with the fields the webview
  reads. \<open>'d\<close> is the type of dates, \<open>'u\<close> the type of token usage records; both are only
  handed to formatting functions.
\<close>

record 'd UsageWindow =
  time_percent :: jsnum
  used_percent :: jsnum
  reset_time :: 'd
  outdated :: bool

record ('d, 'u) RateLimitData =
  primary :: "'d UsageWindow option"
  secondary :: "'d UsageWindow option"
  total_usage :: 'u
  last_usage :: 'u
  current_time :: 'd

record ('d, 'u) FetchResult =
  found :: bool
  data :: "('d, 'u) RateLimitData option"
  error :: "jsstring option"

text \<open>
  What the rendering code obtains from its surroundings: the webview's \<open>cspSource\<close>, the
  text of the stylesheet URI, the formatting collaborator, the runtime's conversions of
  dates and numbers to text, and the configuration.
\<close>

record ('d, 'u) env =
  cspSource :: jsstring
  styleUri :: jsstring
  formatTokenUsage :: "'u \<Rightarrow> jsstring"
  toLocaleString :: "'d \<Rightarrow> jsstring"
  numberToString :: "real \<Rightarrow> jsstring"
  toFixed1 :: "jsnum \<Rightarrow> jsstring"
  configuration :: config

text \<open>
  Interpolating a number into a template literal applies Number::toString: the text is
  \<open>NaN\<close>, \<open>Infinity\<close>, \<open>-Infinity\<close>, \<open>0\<close> for a zero, and the runtime's shortest decimal
  for any other finite value.
\<close>

definition Number_toString :: "('d, 'u) env \<Rightarrow> jsnum \<Rightarrow> jsstring" where
  "Number_toString e x =
     (case x of
        NaN \<Rightarrow> str ''NaN''
      | PosInf \<Rightarrow> str ''Infinity''
      | NegInf \<Rightarrow> str ''-Infinity''
      | Fin r \<Rightarrow> if r = 0 then str ''0'' else numberToString e r)"


section \<open>Rendering\<close>

text \<open>
  The body of \<open>if (data.primary) { ... }\<close> in \<open>_renderProgressSection\<close>: the markup appended
  to \<open>html\<close> and the two rules pushed to \<open>widthRules\<close>. The block for the secondary
  window is the same code with the other template and identifiers.
\<close>

definition primary_block :: "('d, 'u) env \<Rightarrow> 'd UsageWindow \<Rightarrow> jsstring \<times> jsstring list" where
  "primary_block e w =
     (let resetTimeStr = toLocaleString e (reset_time w);
          outdatedStr = (if outdated w then str '' [OUTDATED]'' else []);
          timePercent = (if outdated w then Fin 0 else clampPercentage (time_percent w));
          usagePercent = (if outdated w then Fin 0 else clampPercentage (used_percent w));
          timeText = (if outdated w then str ''N/A'' else toFixed1 e timePercent @ str ''%'');
          usageText = (if outdated w then str ''N/A'' else toFixed1 e usagePercent @ str ''%'')
      in (primary_markup (getProgressClass timePercent (outdated w)) timeText
            resetTimeStr outdatedStr
            (getUsageClass (configuration e) usagePercent (outdated w)) usageText,
          [str ''#primary-time-fill { width: '' @ Number_toString e timePercent @ str ''%; }'',
           str ''#primary-usage-fill { width: '' @ Number_toString e usagePercent @ str ''%; }'']))"

definition secondary_block :: "('d, 'u) env \<Rightarrow> 'd UsageWindow \<Rightarrow> jsstring \<times> jsstring list" where
  "secondary_block e w =
     (let resetTimeStr = toLocaleString e (reset_time w);
          outdatedStr = (if outdated w then str '' [OUTDATED]'' else []);
          timePercent = (if outdated w then Fin 0 else clampPercentage (time_percent w));
          usagePercent = (if outdated w then Fin 0 else clampPercentage (used_percent w));
          timeText = (if outdated w then str ''N/A'' else toFixed1 e timePercent @ str ''%'');
          usageText = (if outdated w then str ''N/A'' else toFixed1 e usagePercent @ str ''%'')
      in (secondary_markup (getProgressClass timePercent (outdated w)) timeText
            resetTimeStr outdatedStr
            (getUsageClass (configuration e) usagePercent (outdated w)) usageText,
          [str ''#secondary-time-fill { width: '' @ Number_toString e timePercent @ str ''%; }'',
           str ''#secondary-usage-fill { width: '' @ Number_toString e usagePercent @
             str ''%; }'']))"

text \<open>\<open>_renderProgressSection(data, widthRules)\<close> returns the markup and the array as it
  stands after the pushes.\<close>

definition renderProgressSection ::
    "('d, 'u) env \<Rightarrow> ('d, 'u) RateLimitData \<Rightarrow> jsstring list \<Rightarrow> jsstring \<times> jsstring list" where
  "renderProgressSection e d widthRules =
     (let (html1, rules1) =
            (case primary d of
               None \<Rightarrow> ([], widthRules)
             | Some w \<Rightarrow> (fst (primary_block e w), widthRules @ snd (primary_block e w)));
          (html2, rules2) =
            (case secondary d of
               None \<Rightarrow> (html1, rules1)
             | Some w \<Rightarrow> (html1 @ fst (secondary_block e w), rules1 @ snd (secondary_block e w)))
      in (html2, rules2))"

text \<open>The array literal \<open>csp\<close> of \<open>_getHtml\<close> before \<open>.join(' ')\<close>, and that of
  \<open>_getErrorHtml\<close>.\<close>

definition getHtml_csp :: "('d, 'u) env \<Rightarrow> jsstring \<Rightarrow> jsstring list" where
  "getHtml_csp e nonce =
     [str ''default-src '' @ [39] @ str ''none'' @ [39] @ str '';'',
      str ''img-src '' @ cspSource e @ str '';'',
      str ''style-src '' @ cspSource e @ str '' 'nonce-'' @ nonce @ [39] @ str '';'',
      str ''script-src 'nonce-'' @ nonce @ [39] @ str '';'']"

definition getErrorHtml_csp :: "('d, 'u) env \<Rightarrow> jsstring \<Rightarrow> jsstring list" where
  "getErrorHtml_csp e nonce =
     [str ''default-src '' @ [39] @ str ''none'' @ [39] @ str '';'',
      str ''img-src '' @ cspSource e @ str '';'',
      str ''style-src '' @ cspSource e @ str '' 'nonce-'' @ nonce @ [39] @ str '';'',
      str ''script-src 'nonce-'' @ nonce @ [39] @ str '';'']"

definition getHtml :: "('d, 'u) env \<Rightarrow> jsstring \<Rightarrow> ('d, 'u) RateLimitData \<Rightarrow> jsstring" where
  "getHtml e nonce d =
     (let (progressSection, widthRules) = renderProgressSection e d [];
          csp = join (str '' '') (getHtml_csp e nonce);
          warningColor =
            sanitizeColor (Some (config_get (color_warningColor (configuration e)) (str ''#f3d898'')))
              (str ''#f3d898'');
          criticalColor =
            sanitizeColor (Some (config_get (color_criticalColor (configuration e)) (str ''#eca7a7'')))
              (str ''#eca7a7'')
      in html_markup csp (styleUri e) nonce warningColor criticalColor (join [10] widthRules)
           progressSection (formatTokenUsage e (total_usage d)) (formatTokenUsage e (last_usage d))
           (toLocaleString e (current_time d)))"

definition getErrorHtml :: "('d, 'u) env \<Rightarrow> jsstring \<Rightarrow> jsstring \<Rightarrow> jsstring" where
  "getErrorHtml e nonce errorMessage =
     (let csp = join (str '' '') (getErrorHtml_csp e nonce);
          safeErrorMessage = escapeHtml errorMessage
      in error_markup csp (styleUri e) safeErrorMessage nonce)"

section \<open>The panel and its singleton slot\<close>

text \<open>
  A \<open>RateLimitWebView\<close> object with the state of the host panel it owns: the webview's
  \<open>html\<close>, the \<open>reveal\<close> calls the panel has received, the column it was created in, the
  nonce and the registered disposables. Objects live in \<open>instances\<close>; a reference is an
  index into that list, and a new object is appended. \<open>currentPanel\<close> is the static slot,
  \<open>log_entries\<close> what the logger has been given (message, force flag).
\<close>

datatype handler = OnDidDispose | OnDidReceiveMessage

record view =
  html :: jsstring
  reveals :: "int option list"
  viewColumn :: int
  nonce :: jsstring
  disposables :: "handler list"

record world =
  currentPanel :: "nat option"
  instances :: "view list"
  log_entries :: "(jsstring \<times> bool) list"

text \<open>What a call can throw: an \<open>Error\<close> object with its message, or any other value. A
  collaborator call either throws (or rejects) or returns.\<close>

datatype thrown = ErrorObject jsstring | OtherValue

datatype 'a outcome = Throws thrown | Returns 'a

definition log_call :: "jsstring \<Rightarrow> bool \<Rightarrow> world \<Rightarrow> world" where
  "log_call message force w = w\<lparr>log_entries := log_entries w @ [(message, force)]\<rparr>"

definition set_html :: "nat \<Rightarrow> jsstring \<Rightarrow> world \<Rightarrow> world" where
  "set_html this h w = w\<lparr>instances := (instances w)[this := (instances w ! this)\<lparr>html := h\<rparr>]\<rparr>"



text \<open>\<open>a || b\<close> on an optional string: \<open>b\<close> when \<open>a\<close> is undefined or empty.\<close>

definition or_else :: "jsstring option \<Rightarrow> jsstring \<Rightarrow> jsstring" where
  "or_else a b = (case a of None \<Rightarrow> b | Some s \<Rightarrow> if s = [] then b else s)"

text \<open>
  The \<open>try\<close> block of \<open>_update\<close>, given how the call of \<open>getRateLimitData\<close> ends: \<open>Inl\<close> is
  the exception leaving the block.
\<close>

definition update_try ::
    "('d, 'u) env \<Rightarrow> nat \<Rightarrow> ('d, 'u) FetchResult outcome \<Rightarrow> world \<Rightarrow> thrown + world" where
  "update_try e this fetched w =
     (case fetched of
        Throws x \<Rightarrow> Inl x
      | Returns result \<Rightarrow>
          if \<not> found result then
            Inr (set_html this
                   (getErrorHtml e (nonce (instances w ! this))
                      (or_else (error result) (str ''No rate limit data found''))) w)
          else
            (case data result of
               None \<Rightarrow>
                 Inr (set_html this
                        (getErrorHtml e (nonce (instances w ! this))
                           (str ''Rate limit data is undefined'')) w)
             | Some d \<Rightarrow>
                 Inr (log_call (str ''WebView updated successfully'') False
                        (set_html this (getHtml e (nonce (instances w ! this)) d) w))))"

text \<open>\<open>_update\<close>: the \<open>try\<close> block and its \<open>catch\<close>. \<open>Inl\<close> would be an exception that
  leaves \<open>_update\<close>.\<close>

definition update ::
    "('d, 'u) env \<Rightarrow> nat \<Rightarrow> ('d, 'u) FetchResult outcome \<Rightarrow> world \<Rightarrow> thrown + world" where
  "update e this fetched w =
     (case update_try e this fetched w of
        Inr w' \<Rightarrow> Inr w'
      | Inl x \<Rightarrow>
          let errorMessage = (case x of ErrorObject m \<Rightarrow> m | OtherValue \<Rightarrow> str ''Unknown error'');
              w1 = log_call (str ''Error updating WebView: '' @ errorMessage) True w
          in Inr (set_html this (getErrorHtml e (nonce (instances w1 ! this)) errorMessage) w1))"



section \<open>Sample values\<close>

text \<open>An environment and a world with one live panel, for the concrete instances below.\<close>

definition sample_env :: "(int, nat) env" where
  "sample_env =
     \<lparr>cspSource = str ''https://x.test'', styleUri = str ''https://x.test/media/styles.css'',
       formatTokenUsage = (\<lambda>u. str ''0 tokens''), toLocaleString = (\<lambda>t. str ''noon''),
       numberToString = (\<lambda>r. str ''50''), toFixed1 = (\<lambda>x. str ''50.0''),
       configuration = \<lparr>color_warningColor = None, color_criticalColor = None,
         color_warningThreshold = None, color_criticalThreshold = None\<rparr>\<rparr>"

definition sample_nonce :: jsstring where
  "sample_nonce = str ''000102030405060708090a0b0c0d0eff''"

definition sample_world :: world where
  "sample_world =
     \<lparr>currentPanel = Some 0,
       instances = [\<lparr>html = [], reveals = [], viewColumn = 1, nonce = sample_nonce,
                     disposables = [OnDidDispose, OnDidReceiveMessage]\<rparr>],
       log_entries = []\<rparr>"



section \<open>Properties of the regular expressions\<close>

lemma rep_unfold:
  "rep 3 r = seqs [r, r, r]"
  "rep 6 r = seqs [r, r, r, r, r, r]"
  "rep 8 r = seqs [r, r, r, r, r, r, r, r]"
  by (simp_all add: rep_def numeral_eq_Suc)

lemmas pattern_defs =
  HEX_COLOR_PATTERN_def RGB_COLOR_PATTERN_def HSL_COLOR_PATTERN_def hsl_pattern_def
  RGB_NUMBER_def ALPHA_VALUE_def HUE_COMPONENT_def HSL_PERCENT_def HSL_PERCENT_bounded_def
  rep_unfold lit_def lits_def seqs_def opt_def many1_def DIGIT_def HEXDIGIT_def ZERO_def WS_def









lemma sublist_set: "sublist w s \<Longrightarrow> c \<in> set w \<Longrightarrow> c \<in> set s"
  by (auto simp: sublist_def)











section \<open>\<open>sanitizeColor\<close>: the allow-list\<close>




text \<open>The source's percentage pattern lets a fraction follow \<open>100\<close>.\<close>

lemma sanitizeColor_percent_above_100:
  "sanitizeColor (Some (str ''hsl(0, 100.5%, 50%)'')) (str ''#f3d898'') = str ''hsl(0, 100.5%, 50%)''"
  by (simp add: sanitizeColor_def trim_def regex_test_def pattern_defs str_def in_class_def)

section \<open>Percentages and classes\<close>

text \<open>
  Claim C7. \<open>_clampPercentage\<close> returns a finite value in \<open>[0,100]\<close>: NaN and both infinities
  give 0, a value below 0 gives 0, a value above 100 gives 100, and a finite value in
  \<open>[0,100]\<close> is returned as it is.
\<close>

theorem clampPercentage_range:
  "clampPercentage NaN = Fin 0
   \<and> clampPercentage PosInf = Fin 0
   \<and> clampPercentage NegInf = Fin 0
   \<and> (r < 0 \<longrightarrow> clampPercentage (Fin r) = Fin 0)
   \<and> (100 < r \<longrightarrow> clampPercentage (Fin r) = Fin 100)
   \<and> (0 \<le> r \<and> r \<le> 100 \<longrightarrow> clampPercentage (Fin r) = Fin r)
   \<and> (\<exists>q. clampPercentage x = Fin q \<and> 0 \<le> q \<and> q \<le> 100)"
proof -
  have fin: "clampPercentage (Fin t) = Fin (if t < 0 then 0 else if 100 < t then 100 else t)"
    for t
    by (simp add: clampPercentage_def Number_isFinite_def Math_max_def Math_min_def)
  have inf: "clampPercentage NaN = Fin 0" "clampPercentage PosInf = Fin 0"
    "clampPercentage NegInf = Fin 0"
    by (simp_all add: clampPercentage_def Number_isFinite_def)
  have "\<exists>q. clampPercentage x = Fin q \<and> 0 \<le> q \<and> q \<le> 100"
    by (cases x) (simp_all add: inf fin)
  with inf fin show ?thesis by simp
qed

text \<open>The examples of the specification: \<open>clamp(NaN)\<close>, \<open>clamp(-5)\<close>, \<open>clamp(150)\<close> and
  \<open>clamp(42.3)\<close>.\<close>

theorem clampPercentage_range_witness:
  "clampPercentage NaN = Fin 0
   \<and> clampPercentage (Fin (- 5)) = Fin 0
   \<and> clampPercentage (Fin 150) = Fin 100
   \<and> clampPercentage (Fin 42.3) = Fin 42.3"
  using clampPercentage_range[where r = "- 5"] clampPercentage_range[where r = 150]
    clampPercentage_range[where r = "42.3"]
  by simp

text \<open>
  Claim C6. \<open>_getUsageClass\<close> is a function of the percentage, the outdated flag and the two
  configured thresholds, whatever their order: \<open>outdated\<close> when the flag is set; otherwise
  \<open>high\<close> when \<open>percentage >= critical\<close>; otherwise \<open>medium\<close> when \<open>percentage >= warning\<close>;
  otherwise \<open>low\<close>. The critical threshold is compared first, so a percentage that reaches
  both thresholds is \<open>high\<close> also when the warning threshold is the larger one.
\<close>

theorem getUsageClass_tiers:
  "getUsageClass cfg p True = str ''outdated''
   \<and> (js_ge p (config_get (color_criticalThreshold cfg) (Fin 90))
        \<longrightarrow> getUsageClass cfg p False = str ''high'')
   \<and> (\<not> js_ge p (config_get (color_criticalThreshold cfg) (Fin 90))
        \<and> js_ge p (config_get (color_warningThreshold cfg) (Fin 70))
        \<longrightarrow> getUsageClass cfg p False = str ''medium'')
   \<and> (\<not> js_ge p (config_get (color_criticalThreshold cfg) (Fin 90))
        \<and> \<not> js_ge p (config_get (color_warningThreshold cfg) (Fin 70))
        \<longrightarrow> getUsageClass cfg p False = str ''low'')"
  by (simp add: getUsageClass_def Let_def)

text \<open>The examples of the specification with thresholds 70 and 90, and a configuration
  with warning 90 above critical 70, where 80 and 95 are both \<open>high\<close> and 50 is \<open>low\<close>.\<close>

theorem getUsageClass_tiers_witness:
  "getUsageClass \<lparr>color_warningColor = None, color_criticalColor = None,
       color_warningThreshold = Some (Fin 70), color_criticalThreshold = Some (Fin 90)\<rparr>
     (Fin 95) False = str ''high''
   \<and> getUsageClass \<lparr>color_warningColor = None, color_criticalColor = None,
       color_warningThreshold = Some (Fin 70), color_criticalThreshold = Some (Fin 90)\<rparr>
     (Fin 75) False = str ''medium''
   \<and> getUsageClass \<lparr>color_warningColor = None, color_criticalColor = None,
       color_warningThreshold = None, color_criticalThreshold = None\<rparr>
     (Fin 10) False = str ''low''
   \<and> getUsageClass \<lparr>color_warningColor = None, color_criticalColor = None,
       color_warningThreshold = Some (Fin 70), color_criticalThreshold = Some (Fin 90)\<rparr>
     (Fin 10) True = str ''outdated''
   \<and> getUsageClass \<lparr>color_warningColor = None, color_criticalColor = None,
       color_warningThreshold = Some (Fin 90), color_criticalThreshold = Some (Fin 70)\<rparr>
     (Fin 80) False = str ''high''
   \<and> getUsageClass \<lparr>color_warningColor = None, color_criticalColor = None,
       color_warningThreshold = Some (Fin 90), color_criticalThreshold = Some (Fin 70)\<rparr>
     (Fin 95) False = str ''high''
   \<and> getUsageClass \<lparr>color_warningColor = None, color_criticalColor = None,
       color_warningThreshold = Some (Fin 90), color_criticalThreshold = Some (Fin 70)\<rparr>
     (Fin 50) False = str ''low''"
proof -
  let ?c = "\<lambda>w c. \<lparr>color_warningColor = None, color_criticalColor = None,
       color_warningThreshold = w, color_criticalThreshold = c\<rparr>"
  note t = getUsageClass_tiers
  have "getUsageClass (?c (Some (Fin 70)) (Some (Fin 90))) (Fin 95) False = str ''high''"
    using t[of "?c (Some (Fin 70)) (Some (Fin 90))" "Fin 95"]
    by (simp add: js_ge_def config_get_def)
  moreover
  have "getUsageClass (?c (Some (Fin 70)) (Some (Fin 90))) (Fin 75) False = str ''medium''"
    using t[of "?c (Some (Fin 70)) (Some (Fin 90))" "Fin 75"]
    by (simp add: js_ge_def config_get_def)
  moreover
  have "getUsageClass (?c None None) (Fin 10) False = str ''low''"
    using t[of "?c None None" "Fin 10"]
    by (simp add: js_ge_def config_get_def)
  moreover
  have "getUsageClass (?c (Some (Fin 70)) (Some (Fin 90))) (Fin 10) True = str ''outdated''"
    using t[of "?c (Some (Fin 70)) (Some (Fin 90))" "Fin 10"]
    by simp
  moreover
  have "getUsageClass (?c (Some (Fin 90)) (Some (Fin 70))) (Fin 80) False = str ''high''"
    using t[of "?c (Some (Fin 90)) (Some (Fin 70))" "Fin 80"]
    by (simp add: js_ge_def config_get_def)
  moreover
  have "getUsageClass (?c (Some (Fin 90)) (Some (Fin 70))) (Fin 95) False = str ''high''"
    using t[of "?c (Some (Fin 90)) (Some (Fin 70))" "Fin 95"]
    by (simp add: js_ge_def config_get_def)
  moreover
  have "getUsageClass (?c (Some (Fin 90)) (Some (Fin 70))) (Fin 50) False = str ''low''"
    using t[of "?c (Some (Fin 90)) (Some (Fin 70))" "Fin 50"]
    by (simp add: js_ge_def config_get_def)
  ultimately show ?thesis by blast
qed

text \<open>
  Claim C10. The class of a time bar, \<open>_getProgressClass\<close>, is \<open>outdated\<close> when the flag is
  set and the empty string otherwise, for every percentage; it is never \<open>low\<close>, \<open>medium\<close>
  or \<open>high\<close>. In the markup of either window the time bar carries this class, whatever
  the configuration holds.
\<close>

theorem getProgressClass_no_tier:
  "getProgressClass p True = str ''outdated''
   \<and> getProgressClass p False = []
   \<and> getProgressClass p od \<noteq> str ''low''
   \<and> getProgressClass p od \<noteq> str ''medium''
   \<and> getProgressClass p od \<noteq> str ''high''
   \<and> (\<exists>timeText resetTimeStr outdatedStr usageClass usageText.
         fst (primary_block e w)
           = primary_markup (if outdated w then str ''outdated'' else []) timeText
               resetTimeStr outdatedStr usageClass usageText)
   \<and> (\<exists>timeText resetTimeStr outdatedStr usageClass usageText.
         fst (secondary_block e w)
           = secondary_markup (if outdated w then str ''outdated'' else []) timeText
               resetTimeStr outdatedStr usageClass usageText)"
proof -
  have "fst (primary_block e w)
      = primary_markup (if outdated w then str ''outdated'' else [])
          (if outdated w then str ''N/A''
           else toFixed1 e (clampPercentage (time_percent w)) @ str ''%'')
          (toLocaleString e (reset_time w))
          (if outdated w then str '' [OUTDATED]'' else [])
          (getUsageClass (configuration e)
             (if outdated w then Fin 0 else clampPercentage (used_percent w)) (outdated w))
          (if outdated w then str ''N/A''
           else toFixed1 e (clampPercentage (used_percent w)) @ str ''%'')"
    by (simp add: primary_block_def Let_def getProgressClass_def)
  moreover
  have "fst (secondary_block e w)
      = secondary_markup (if outdated w then str ''outdated'' else [])
          (if outdated w then str ''N/A''
           else toFixed1 e (clampPercentage (time_percent w)) @ str ''%'')
          (toLocaleString e (reset_time w))
          (if outdated w then str '' [OUTDATED]'' else [])
          (getUsageClass (configuration e)
             (if outdated w then Fin 0 else clampPercentage (used_percent w)) (outdated w))
          (if outdated w then str ''N/A''
           else toFixed1 e (clampPercentage (used_percent w)) @ str ''%'')"
    by (simp add: secondary_block_def Let_def getProgressClass_def)
  moreover
  have "getProgressClass p od \<noteq> str ''low''" "getProgressClass p od \<noteq> str ''medium''"
    "getProgressClass p od \<noteq> str ''high''"
    by (simp_all add: getProgressClass_def str_def)
  ultimately show ?thesis
    by (simp add: getProgressClass_def) blast
qed

text \<open>At percentages that a usage bar would classify as \<open>high\<close> and \<open>medium\<close>.\<close>

theorem getProgressClass_no_tier_witness:
  "getProgressClass (Fin 95) False = [] \<and> getProgressClass (Fin 75) True = str ''outdated''"
proof -
  let ?e = "\<lparr>cspSource = [], styleUri = [], formatTokenUsage = (\<lambda>u::nat. []),
     toLocaleString = (\<lambda>d::int. []), numberToString = (\<lambda>r. []), toFixed1 = (\<lambda>x. []),
     configuration = \<lparr>color_warningColor = None, color_criticalColor = None,
       color_warningThreshold = None, color_criticalThreshold = None\<rparr>\<rparr>"
  let ?w = "\<lparr>time_percent = Fin 95, used_percent = Fin 95, reset_time = 0::int,
     outdated = False\<rparr>"
  show ?thesis
    using getProgressClass_no_tier[where p = "Fin 95" and od = False and e = ?e and w = ?w]
      getProgressClass_no_tier[where p = "Fin 75" and od = True and e = ?e and w = ?w]
    by simp
qed

section \<open>\<open>_escapeHtml\<close>\<close>

lemma special_iff:
  "in_class HTML_SPECIAL c \<longleftrightarrow> c = 38 \<or> c = 60 \<or> c = 62 \<or> c = 34 \<or> c = 39"
  by (auto simp: HTML_SPECIAL_def in_class_def)

lemma escapeHtml_Nil: "escapeHtml [] = []"
  by (simp add: escapeHtml_def replace_class_def)

lemma escapeHtml_Cons:
  "escapeHtml (c # s) = (if in_class HTML_SPECIAL c then escape_char c else [c]) @ escapeHtml s"
  by (simp add: escapeHtml_def replace_class_def)

lemma escape_char_amp: "in_class HTML_SPECIAL c \<Longrightarrow> \<exists>t. escape_char c = 38 # t \<and> t \<noteq> []"
  by (auto simp: special_iff escape_char_def str_def)

lemma length_escapeHtml: "length s \<le> length (escapeHtml s)"
proof (induction s)
  case Nil
  then show ?case by (simp add: escapeHtml_Nil)
next
  case (Cons c s)
  then show ?case
    using escape_char_amp[of c] by (auto simp: escapeHtml_Cons)
qed

lemma escapeHtml_grows:
  "list_ex (in_class HTML_SPECIAL) s \<Longrightarrow> length s < length (escapeHtml s)"
proof (induction s)
  case Nil
  then show ?case by simp
next
  case (Cons c s)
  show ?case
  proof (cases "in_class HTML_SPECIAL c")
    case True
    then obtain t where "escape_char c = 38 # t" "t \<noteq> []"
      using escape_char_amp by blast
    then have "2 \<le> length (escape_char c)"
      by (cases t) simp_all
    with True show ?thesis
      using length_escapeHtml[of s] by (simp add: escapeHtml_Cons)
  next
    case False
    with Cons show ?thesis by (simp add: escapeHtml_Cons)
  qed
qed

lemma escapeHtml_has_amp:
  "list_ex (in_class HTML_SPECIAL) s \<Longrightarrow> list_ex (in_class HTML_SPECIAL) (escapeHtml s)"
proof (induction s)
  case Nil
  then show ?case by simp
next
  case (Cons c s)
  show ?case
  proof (cases "in_class HTML_SPECIAL c")
    case True
    then obtain t where "escape_char c = 38 # t"
      using escape_char_amp by blast
    with True show ?thesis
      by (simp add: escapeHtml_Cons special_iff)
  next
    case False
    with Cons show ?thesis by (simp add: escapeHtml_Cons)
  qed
qed

lemma escapeHtml_plain: "\<not> list_ex (in_class HTML_SPECIAL) s \<Longrightarrow> escapeHtml s = s"
  by (induction s) (simp_all add: escapeHtml_Nil escapeHtml_Cons)

text \<open>
  Claim C8. \<open>_escapeHtml\<close> replaces each of the five characters \<open>&\<close>, \<open><\<close>, \<open>>\<close>, \<open>"\<close> and \<open>'\<close> by
  its entity and keeps every other code unit, so \<open><script>\<close> becomes \<open>&lt;script&gt;\<close>.
  There is no unescape path: escaping a string that holds one of the five characters
  gives a string that escaping changes again.
\<close>

theorem escapeHtml_entities:
  "escapeHtml [] = []
   \<and> escapeHtml (c # s)
       = (if c = 38 then str ''&amp;''
          else if c = 60 then str ''&lt;''
          else if c = 62 then str ''&gt;''
          else if c = 34 then str ''&quot;''
          else if c = 39 then str ''&#39;''
          else [c]) @ escapeHtml s
   \<and> escapeHtml (str ''<script>'') = str ''&lt;script&gt;''
   \<and> (list_ex (\<lambda>c. c = 38 \<or> c = 60 \<or> c = 62 \<or> c = 34 \<or> c = 39) s
        \<longrightarrow> escapeHtml (escapeHtml s) \<noteq> escapeHtml s)
   \<and> (\<not> list_ex (\<lambda>c. c = 38 \<or> c = 60 \<or> c = 62 \<or> c = 34 \<or> c = 39) s
        \<longrightarrow> escapeHtml s = s)"
proof -
  have sp: "in_class HTML_SPECIAL = (\<lambda>c. c = 38 \<or> c = 60 \<or> c = 62 \<or> c = 34 \<or> c = 39)"
    by (rule ext) (rule special_iff)
  have cons: "escapeHtml (c # s)
       = (if c = 38 then str ''&amp;''
          else if c = 60 then str ''&lt;''
          else if c = 62 then str ''&gt;''
          else if c = 34 then str ''&quot;''
          else if c = 39 then str ''&#39;''
          else [c]) @ escapeHtml s"
    by (simp add: escapeHtml_Cons special_iff escape_char_def)
  have ex: "escapeHtml (str ''<script>'') = str ''&lt;script&gt;''"
    by (simp add: escapeHtml_def replace_class_def HTML_SPECIAL_def escape_char_def str_def
        in_class_def)
  have twice: "escapeHtml (escapeHtml s) \<noteq> escapeHtml s"
    if "list_ex (in_class HTML_SPECIAL) s"
  proof -
    from that have "length (escapeHtml s) < length (escapeHtml (escapeHtml s))"
      using escapeHtml_has_amp escapeHtml_grows by blast
    then show ?thesis by auto
  qed
  show ?thesis
    using escapeHtml_Nil cons ex twice escapeHtml_plain unfolding sp by blast
qed

text \<open>At \<open><script>\<close>: escaped once, then escaped a second time; and at a plain word.\<close>

theorem escapeHtml_entities_witness:
  "escapeHtml (str ''<script>'') = str ''&lt;script&gt;''
   \<and> escapeHtml (escapeHtml (str ''<script>'')) \<noteq> escapeHtml (str ''<script>'')
   \<and> escapeHtml (str ''Error'') = str ''Error''"
proof -
  have special: "list_ex (\<lambda>c. c = 38 \<or> c = 60 \<or> c = 62 \<or> c = 34 \<or> c = 39) (str ''<script>'')"
    by (simp add: str_def)
  have plain: "\<not> list_ex (\<lambda>c. c = 38 \<or> c = 60 \<or> c = 62 \<or> c = 34 \<or> c = 39) (str ''Error'')"
    by (simp add: str_def)
  from escapeHtml_entities[where s = "str ''<script>''"] special
    escapeHtml_entities[where s = "str ''Error''"] plain
  show ?thesis by blast
qed

section \<open>Markup: joining and the content security policy\<close>

lemma join_Cons: "join sep (x # xs) = x @ concat (map (\<lambda>y. sep @ y) xs)"
  by (simp add: join_def)

lemma sublist_join: "x \<in> set xs \<Longrightarrow> sublist x (join sep xs)"
proof -
  assume "x \<in> set xs"
  then obtain ys zs where xs: "xs = ys @ x # zs"
    by (auto simp: in_set_conv_decomp)
  show ?thesis
  proof (cases ys)
    case Nil
    with xs have "join sep xs = [] @ x @ concat (map (\<lambda>y. sep @ y) zs)"
      by (simp add: join_Cons)
    then show ?thesis unfolding sublist_def by blast
  next
    case (Cons y ys')
    with xs have "join sep xs
        = (y @ concat (map (\<lambda>y. sep @ y) ys') @ sep) @ x @ concat (map (\<lambda>y. sep @ y) zs)"
      by (simp add: join_Cons)
    then show ?thesis unfolding sublist_def by blast
  qed
qed

lemma sublist_lines: "x \<in> set xs \<Longrightarrow> sublist x (lines xs)"
  unfolding lines_def by (rule sublist_join)

lemma sublist_of_line: "sublist a x \<Longrightarrow> x \<in> set xs \<Longrightarrow> sublist a (lines xs)"
  using sublist_lines sublist_order.order_trans by blast

lemma hex_digit_range: "n < 16 \<Longrightarrow> (48 \<le> hex_digit n \<and> hex_digit n \<le> 57) \<or> (97 \<le> hex_digit n \<and> hex_digit n \<le> 102)"
  by (auto simp: hex_digit_def)

lemma generateNonce_hex:
  "c \<in> set (generateNonce bytes) \<Longrightarrow> (48 \<le> c \<and> c \<le> 57) \<or> (97 \<le> c \<and> c \<le> 102)"
proof (induction bytes)
  case Nil
  then show ?case by (simp add: generateNonce_def toString_hex_def)
next
  case (Cons b bytes)
  have b: "unat b < 256" using unsigned_less[of b, where ?'a = nat] by simp
  then have hi: "unat b div 16 < 16" and lo: "unat b mod 16 < 16" by simp_all
  from Cons.prems have "c = hex_digit (unat b div 16) \<or> c = hex_digit (unat b mod 16)
      \<or> c \<in> set (generateNonce bytes)"
    by (auto simp: generateNonce_def toString_hex_def)
  then show ?case
    using hex_digit_range[OF hi] hex_digit_range[OF lo] Cons.IH by blast
qed

lemma generateNonce_length: "length (generateNonce bytes) = 2 * length bytes"
  by (induction bytes) (simp_all add: generateNonce_def toString_hex_def)

lemma script_src_no_u:
  "117 \<notin> set (str ''script-src 'nonce-'' @ generateNonce bytes @ [39] @ str '';'')"
  using generateNonce_hex[of 117 bytes] by (auto simp: str_def)

text \<open>
  Claim C2. The policy built by \<open>_getHtml\<close> and the one built by \<open>_getErrorHtml\<close> are the same
  four directives: \<open>default-src 'none'\<close>; \<open>img-src\<close> with the webview's own source only;
  \<open>style-src\<close> with that source and the nonce; \<open>script-src\<close> with the nonce only. Each
  markup carries its policy in the \<open>Content-Security-Policy\<close> meta element. The policy does
  not depend on the configuration, and for a nonce made by \<open>_generateNonce\<close> the
  \<open>script-src\<close> directive does not contain \<open>unsafe-inline\<close>.
\<close>

theorem csp_nonce_only:
  \<open>getHtml_csp e n =
     [str ''default-src 'none';'',
      str ''img-src '' @ cspSource e @ str '';'',
      str ''style-src '' @ cspSource e @ str '' 'nonce-'' @ n @ [39] @ str '';'',
      str ''script-src 'nonce-'' @ n @ [39] @ str '';'']
   \<and> getErrorHtml_csp e n = getHtml_csp e n
   \<and> join (str '' '') (getHtml_csp e n) =
       str ''default-src 'none'; img-src '' @ cspSource e @ str ''; style-src '' @ cspSource e @
       str '' 'nonce-'' @ n @ [39] @ str ''; script-src 'nonce-'' @ n @ [39] @ str '';''
   \<and> sublist (str ''<meta http-equiv="Content-Security-Policy" content="'' @
                join (str '' '') (getHtml_csp e n) @ str ''">'') (getHtml e n d)
   \<and> sublist (str ''<meta http-equiv="Content-Security-Policy" content="'' @
                join (str '' '') (getErrorHtml_csp e n) @ str ''">'') (getErrorHtml e n m)
   \<and> getHtml_csp (e\<lparr>configuration := cfg\<rparr>) n = getHtml_csp e n
   \<and> getErrorHtml_csp (e\<lparr>configuration := cfg\<rparr>) n = getErrorHtml_csp e n
   \<and> \<not> sublist (str ''unsafe-inline'') (getHtml_csp e (generateNonce bytes) ! 3)
   \<and> \<not> sublist (str ''unsafe-inline'') (getErrorHtml_csp e (generateNonce bytes) ! 3)\<close>
proof -
  have parts: \<open>getHtml_csp e n =
     [str ''default-src 'none';'',
      str ''img-src '' @ cspSource e @ str '';'',
      str ''style-src '' @ cspSource e @ str '' 'nonce-'' @ n @ [39] @ str '';'',
      str ''script-src 'nonce-'' @ n @ [39] @ str '';'']\<close>
    by (simp add: getHtml_csp_def str_def)
  have same: "getErrorHtml_csp e n = getHtml_csp e n" for n
    by (simp add: getErrorHtml_csp_def getHtml_csp_def)
  have joined: \<open>join (str '' '') (getHtml_csp e n) =
       str ''default-src 'none'; img-src '' @ cspSource e @ str ''; style-src '' @ cspSource e @
       str '' 'nonce-'' @ n @ [39] @ str ''; script-src 'nonce-'' @ n @ [39] @ str '';''\<close>
    by (simp add: getHtml_csp_def join_def str_def)
  have pad: \<open>sublist (str ''<meta http-equiv="Content-Security-Policy" content="'' @ c @ str ''">'')
       (str ''      <meta http-equiv="Content-Security-Policy" content="'' @ c @ str ''">'')\<close> for c
  proof -
    have \<open>str ''      <meta http-equiv="Content-Security-Policy" content="'' @ c @ str ''">''
        = str ''      '' @
          (str ''<meta http-equiv="Content-Security-Policy" content="'' @ c @ str ''">'') @ []\<close>
      by (simp add: str_def)
    then show ?thesis
      unfolding sublist_def by blast
  qed
  obtain ps wr where r: "renderProgressSection e d [] = (ps, wr)"
    by (cases "renderProgressSection e d []")
  have meta1: \<open>sublist (str ''<meta http-equiv="Content-Security-Policy" content="'' @
                join (str '' '') (getHtml_csp e n) @ str ''">'') (getHtml e n d)\<close>
    unfolding getHtml_def Let_def r prod.case html_markup_def
    by (rule sublist_of_line[OF pad]) simp
  have meta2: \<open>sublist (str ''<meta http-equiv="Content-Security-Policy" content="'' @
                join (str '' '') (getErrorHtml_csp e n) @ str ''">'') (getErrorHtml e n m)\<close>
    unfolding getErrorHtml_def Let_def error_markup_def
    by (rule sublist_of_line[OF pad]) simp
  have cfg: "getHtml_csp (e\<lparr>configuration := cfg\<rparr>) n = getHtml_csp e n"
    by (simp add: getHtml_csp_def)
  have script: "\<not> sublist (str ''unsafe-inline'') (getHtml_csp e (generateNonce bytes) ! 3)"
  proof
    assume "sublist (str ''unsafe-inline'') (getHtml_csp e (generateNonce bytes) ! 3)"
    then have "117 \<in> set (getHtml_csp e (generateNonce bytes) ! 3)"
      by (rule sublist_set) (simp add: str_def)
    then show False
      using script_src_no_u[of bytes] by (simp add: getHtml_csp_def)
  qed
  have cfg': "getErrorHtml_csp (e\<lparr>configuration := cfg\<rparr>) n = getErrorHtml_csp e n"
    by (simp add: getErrorHtml_csp_def)
  have script': "\<not> sublist (str ''unsafe-inline'') (getErrorHtml_csp e (generateNonce bytes) ! 3)"
    using script by (simp add: same)
  note same' = same[of n]
  show ?thesis
    by (intro conjI) (fact parts same' joined meta1 meta2 cfg cfg' script script')+
qed

text \<open>At a concrete source and the nonce of sixteen bytes: the policy as one string.\<close>

theorem csp_nonce_only_witness:
  \<open>join (str '' '')
     (getHtml_csp
        \<lparr>cspSource = str ''https://x.test'', styleUri = [], formatTokenUsage = (\<lambda>u::nat. []),
          toLocaleString = (\<lambda>d::int. []), numberToString = (\<lambda>r. []), toFixed1 = (\<lambda>x. []),
          configuration = \<lparr>color_warningColor = Some (str ''red; x''), color_criticalColor = None,
            color_warningThreshold = None, color_criticalThreshold = None\<rparr>\<rparr>
        (generateNonce [0, 1, 2, 3, 4, 5, 6, 7, 8, 9, 10, 11, 12, 13, 14, 255]))
   = str ''default-src 'none'; img-src https://x.test; style-src https://x.test '' @ [39] @
     str ''nonce-000102030405060708090a0b0c0d0eff'; '' @
     str ''script-src 'nonce-000102030405060708090a0b0c0d0eff'' @ [39] @ str '';''\<close>
  using csp_nonce_only[where e = "\<lparr>cspSource = str ''https://x.test'', styleUri = [],
          formatTokenUsage = (\<lambda>u::nat. []),
          toLocaleString = (\<lambda>d::int. []), numberToString = (\<lambda>r. []), toFixed1 = (\<lambda>x. []),
          configuration = \<lparr>color_warningColor = Some (str ''red; x''), color_criticalColor = None,
            color_warningThreshold = None, color_criticalThreshold = None\<rparr>\<rparr>"
      and n = "generateNonce [0, 1, 2, 3, 4, 5, 6, 7, 8, 9, 10, 11, 12, 13, 14, 255]"]
  by (simp add: generateNonce_def toString_hex_def hex_digit_def str_def join_def)

section \<open>The progress section\<close>

lemma renderProgressSection_blocks:
  "renderProgressSection e d rules =
     ((case primary d of None \<Rightarrow> [] | Some w \<Rightarrow> fst (primary_block e w)) @
      (case secondary d of None \<Rightarrow> [] | Some w \<Rightarrow> fst (secondary_block e w)),
      rules @ (case primary d of None \<Rightarrow> [] | Some w \<Rightarrow> snd (primary_block e w)) @
      (case secondary d of None \<Rightarrow> [] | Some w \<Rightarrow> snd (secondary_block e w)))"
  by (simp add: renderProgressSection_def split: option.split)

lemma sublist_mid: "sublist (a @ x @ b) (p @ a @ x @ b)"
  by (rule sublist_append_leftI)

lemma primary_markup_shows:
  \<open>sublist (str ''<div class="progress-percentage">'' @ timeText @ str ''</div>'')
     (primary_markup timeClass timeText resetTimeStr outdatedStr usageClass usageText)\<close>
  \<open>sublist (str ''<div class="progress-percentage">'' @ usageText @ str ''</div>'')
     (primary_markup timeClass timeText resetTimeStr outdatedStr usageClass usageText)\<close>
proof -
  have pad: \<open>sublist (str ''<div class="progress-percentage">'' @ t @ str ''</div>'')
      (str ''              <div class="progress-percentage">'' @ t @ str ''</div>'')\<close> for t
  proof -
    have \<open>str ''              <div class="progress-percentage">'' @ t @ str ''</div>''
        = str ''              '' @ (str ''<div class="progress-percentage">'' @ t @ str ''</div>'')\<close>
      by (simp add: str_def)
    then show ?thesis by (simp add: sublist_append_leftI)
  qed
  show \<open>sublist (str ''<div class="progress-percentage">'' @ timeText @ str ''</div>'')
     (primary_markup timeClass timeText resetTimeStr outdatedStr usageClass usageText)\<close>
    unfolding primary_markup_def by (rule sublist_of_line[OF pad]) simp
  show \<open>sublist (str ''<div class="progress-percentage">'' @ usageText @ str ''</div>'')
     (primary_markup timeClass timeText resetTimeStr outdatedStr usageClass usageText)\<close>
    unfolding primary_markup_def by (rule sublist_of_line[OF pad]) simp
qed

lemma secondary_markup_shows:
  \<open>sublist (str ''<div class="progress-percentage">'' @ timeText @ str ''</div>'')
     (secondary_markup timeClass timeText resetTimeStr outdatedStr usageClass usageText)\<close>
  \<open>sublist (str ''<div class="progress-percentage">'' @ usageText @ str ''</div>'')
     (secondary_markup timeClass timeText resetTimeStr outdatedStr usageClass usageText)\<close>
proof -
  have pad: \<open>sublist (str ''<div class="progress-percentage">'' @ t @ str ''</div>'')
      (str ''              <div class="progress-percentage">'' @ t @ str ''</div>'')\<close> for t
  proof -
    have \<open>str ''              <div class="progress-percentage">'' @ t @ str ''</div>''
        = str ''              '' @ (str ''<div class="progress-percentage">'' @ t @ str ''</div>'')\<close>
      by (simp add: str_def)
    then show ?thesis by (simp add: sublist_append_leftI)
  qed
  show \<open>sublist (str ''<div class="progress-percentage">'' @ timeText @ str ''</div>'')
     (secondary_markup timeClass timeText resetTimeStr outdatedStr usageClass usageText)\<close>
    unfolding secondary_markup_def by (rule sublist_of_line[OF pad]) simp
  show \<open>sublist (str ''<div class="progress-percentage">'' @ usageText @ str ''</div>'')
     (secondary_markup timeClass timeText resetTimeStr outdatedStr usageClass usageText)\<close>
    unfolding secondary_markup_def by (rule sublist_of_line[OF pad]) simp
qed

lemma getHtml_embeds:
  "sublist (fst (renderProgressSection e d [])) (getHtml e n d)"
  "sublist (join [10] (snd (renderProgressSection e d []))) (getHtml e n d)"
proof -
  obtain ps wr where r: "renderProgressSection e d [] = (ps, wr)"
    by (cases "renderProgressSection e d []")
  have p1: "sublist ps (str ''        '' @ ps)" by (rule sublist_append_leftI)
  have p2: "sublist (join [10] wr) (str ''        '' @ join [10] wr)"
    by (rule sublist_append_leftI)
  show "sublist (fst (renderProgressSection e d [])) (getHtml e n d)"
    unfolding getHtml_def Let_def r prod.case fst_conv html_markup_def
    by (rule sublist_of_line[OF p1]) simp
  show "sublist (join [10] (snd (renderProgressSection e d []))) (getHtml e n d)"
    unfolding getHtml_def Let_def r prod.case snd_conv html_markup_def
    by (rule sublist_of_line[OF p2]) simp
qed

lemma primary_block_outdated:
  \<open>outdated w \<Longrightarrow>
   primary_block e w =
     (primary_markup (str ''outdated'') (str ''N/A'') (toLocaleString e (reset_time w))
        (str '' [OUTDATED]'') (str ''outdated'') (str ''N/A''),
      [str ''#primary-time-fill { width: 0%; }'', str ''#primary-usage-fill { width: 0%; }''])\<close>
  by (simp add: primary_block_def Let_def getProgressClass_def getUsageClass_def
      Number_toString_def str_def)

lemma secondary_block_outdated:
  \<open>outdated w \<Longrightarrow>
   secondary_block e w =
     (secondary_markup (str ''outdated'') (str ''N/A'') (toLocaleString e (reset_time w))
        (str '' [OUTDATED]'') (str ''outdated'') (str ''N/A''),
      [str ''#secondary-time-fill { width: 0%; }'', str ''#secondary-usage-fill { width: 0%; }''])\<close>
  by (simp add: secondary_block_def Let_def getProgressClass_def getUsageClass_def
      Number_toString_def str_def)

text \<open>
  Claim C5. For a window whose \<open>outdated\<close> flag is set, the markup of that window shows
  \<open>N/A\<close> as time value and as usage value, and the two width rules pushed for it are
  \<open>width: 0%\<close>; neither depends on \<open>time_percent\<close> or \<open>used_percent\<close>, which are not read at
  all. The progress section is the primary window's markup followed by the secondary
  window's, each only when the window is present, with the width rules in the same
  order; the document embeds the section and the rules.
\<close>

theorem outdated_window_not_shown:
  \<open>(outdated w \<longrightarrow>
      primary_block e w =
        (primary_markup (str ''outdated'') (str ''N/A'') (toLocaleString e (reset_time w))
           (str '' [OUTDATED]'') (str ''outdated'') (str ''N/A''),
         [str ''#primary-time-fill { width: 0%; }'', str ''#primary-usage-fill { width: 0%; }''])
      \<and> secondary_block e w =
        (secondary_markup (str ''outdated'') (str ''N/A'') (toLocaleString e (reset_time w))
           (str '' [OUTDATED]'') (str ''outdated'') (str ''N/A''),
         [str ''#secondary-time-fill { width: 0%; }'',
          str ''#secondary-usage-fill { width: 0%; }''])
      \<and> primary_block e (w\<lparr>time_percent := a, used_percent := b\<rparr>) = primary_block e w
      \<and> secondary_block e (w\<lparr>time_percent := a, used_percent := b\<rparr>) = secondary_block e w)
   \<and> renderProgressSection e d rules =
       ((case primary d of None \<Rightarrow> [] | Some w \<Rightarrow> fst (primary_block e w)) @
        (case secondary d of None \<Rightarrow> [] | Some w \<Rightarrow> fst (secondary_block e w)),
        rules @ (case primary d of None \<Rightarrow> [] | Some w \<Rightarrow> snd (primary_block e w)) @
        (case secondary d of None \<Rightarrow> [] | Some w \<Rightarrow> snd (secondary_block e w)))
   \<and> sublist (str ''<div class="progress-percentage">'' @ timeText @ str ''</div>'')
       (primary_markup timeClass timeText resetTimeStr outdatedStr usageClass usageText)
   \<and> sublist (str ''<div class="progress-percentage">'' @ usageText @ str ''</div>'')
       (primary_markup timeClass timeText resetTimeStr outdatedStr usageClass usageText)
   \<and> sublist (str ''<div class="progress-percentage">'' @ timeText @ str ''</div>'')
       (secondary_markup timeClass timeText resetTimeStr outdatedStr usageClass usageText)
   \<and> sublist (str ''<div class="progress-percentage">'' @ usageText @ str ''</div>'')
       (secondary_markup timeClass timeText resetTimeStr outdatedStr usageClass usageText)
   \<and> sublist (fst (renderProgressSection e d [])) (getHtml e n d)
   \<and> sublist (join [10] (snd (renderProgressSection e d []))) (getHtml e n d)\<close>
proof -
  have indep: "primary_block e (w\<lparr>time_percent := a, used_percent := b\<rparr>) = primary_block e w"
    "secondary_block e (w\<lparr>time_percent := a, used_percent := b\<rparr>) = secondary_block e w"
    if "outdated w"
    using that by (simp_all add: primary_block_outdated secondary_block_outdated)
  show ?thesis
    by (intro conjI impI)
      (rule renderProgressSection_blocks primary_markup_shows secondary_markup_shows
         getHtml_embeds
       | erule primary_block_outdated secondary_block_outdated indep)+
qed

text \<open>A window whose raw fields are 250 and NaN, marked outdated, as both windows of a
  snapshot: the section is the two \<open>N/A\<close> blocks, the rules are four times \<open>width: 0%\<close>.\<close>

theorem outdated_window_not_shown_witness:
  \<open>renderProgressSection
     \<lparr>cspSource = [], styleUri = [], formatTokenUsage = (\<lambda>u::nat. []),
       toLocaleString = (\<lambda>t::int. str ''noon''), numberToString = (\<lambda>r. str ''250''),
       toFixed1 = (\<lambda>x. str ''250.0''),
       configuration = \<lparr>color_warningColor = None, color_criticalColor = None,
         color_warningThreshold = None, color_criticalThreshold = None\<rparr>\<rparr>
     \<lparr>primary = Some \<lparr>time_percent = Fin 250, used_percent = NaN, reset_time = 0,
          outdated = True\<rparr>,
       secondary = Some \<lparr>time_percent = Fin 250, used_percent = NaN, reset_time = 0,
          outdated = True\<rparr>,
       total_usage = 0, last_usage = 0, current_time = 0\<rparr> []
   = (primary_markup (str ''outdated'') (str ''N/A'') (str ''noon'') (str '' [OUTDATED]'')
        (str ''outdated'') (str ''N/A'') @
      secondary_markup (str ''outdated'') (str ''N/A'') (str ''noon'') (str '' [OUTDATED]'')
        (str ''outdated'') (str ''N/A''),
      [str ''#primary-time-fill { width: 0%; }'', str ''#primary-usage-fill { width: 0%; }'',
       str ''#secondary-time-fill { width: 0%; }'', str ''#secondary-usage-fill { width: 0%; }''])\<close>
  using outdated_window_not_shown[where
      e = "\<lparr>cspSource = [], styleUri = [], formatTokenUsage = (\<lambda>u::nat. []),
       toLocaleString = (\<lambda>t::int. str ''noon''), numberToString = (\<lambda>r. str ''250''),
       toFixed1 = (\<lambda>x. str ''250.0''),
       configuration = \<lparr>color_warningColor = None, color_criticalColor = None,
         color_warningThreshold = None, color_criticalThreshold = None\<rparr>\<rparr>"
      and w = "\<lparr>time_percent = Fin 250, used_percent = NaN, reset_time = 0, outdated = True\<rparr>"
      and d = "\<lparr>primary = Some \<lparr>time_percent = Fin 250, used_percent = NaN, reset_time = 0,
          outdated = True\<rparr>,
       secondary = Some \<lparr>time_percent = Fin 250, used_percent = NaN, reset_time = 0,
          outdated = True\<rparr>,
       total_usage = 0, last_usage = 0, current_time = 0\<rparr>"
      and rules = "[]"]
  by simp

section \<open>\<open>_update\<close>\<close>

lemma join_peel:
  "join sep (a # x # xs) = join sep (a # y # ys) \<longleftrightarrow> join sep (x # xs) = join sep (y # ys)"
  by (simp add: join_def)

lemma join_first_differs:
  assumes "x = p @ c # x'" "y = p @ c' # y'" "c \<noteq> c'"
  shows "join sep (x # xs) \<noteq> join sep (y # ys)"
  using assms by (simp add: join_def)

lemma join_head_inj:
  "join sep ((p @ a @ q) # xs) = join sep ((p @ b @ q) # xs) \<longleftrightarrow> a = b"
  by (simp add: join_def)

text \<open>The error markup determines the escaped message, and is never the success markup:
  the two differ in the title.\<close>

lemma error_markup_inj: "error_markup c u a n = error_markup c u b n \<longleftrightarrow> a = b"
  unfolding error_markup_def lines_def
  by (simp only: join_peel join_head_inj)

lemma markup_distinct: "error_markup c u a n \<noteq> html_markup c u n wc cc wr ps tt lt ct"
  unfolding error_markup_def html_markup_def lines_def
  apply (simp only: join_peel)
  apply (rule join_first_differs[where p = "str ''      <title>Codex Rate Limit Details''"
        and c = 32 and c' = 60 and x' = "str ''- Error</title>''" and y' = "str ''/title>''"])
    apply (simp_all add: str_def)
  done

lemma getErrorHtml_not_getHtml: "getErrorHtml e n m \<noteq> getHtml e n d"
proof -
  obtain ps wr where r: "renderProgressSection e d [] = (ps, wr)"
    by (cases "renderProgressSection e d []")
  have c: "getErrorHtml_csp e n = getHtml_csp e n"
    by (simp add: getErrorHtml_csp_def getHtml_csp_def)
  show ?thesis
    unfolding getErrorHtml_def getHtml_def Let_def r prod.case c
    by (rule markup_distinct)
qed

lemma getErrorHtml_inj: "getErrorHtml e n a = getErrorHtml e n b \<longleftrightarrow> escapeHtml a = escapeHtml b"
  by (simp add: getErrorHtml_def Let_def error_markup_inj)


lemma update_Returns:
  "update e this (Returns r) w =
     Inr (if \<not> found r then
            set_html this (getErrorHtml e (nonce (instances w ! this))
              (or_else (error r) (str ''No rate limit data found''))) w
          else case data r of
            None \<Rightarrow> set_html this (getErrorHtml e (nonce (instances w ! this))
                      (str ''Rate limit data is undefined'')) w
          | Some d \<Rightarrow> log_call (str ''WebView updated successfully'') False
                      (set_html this (getHtml e (nonce (instances w ! this)) d) w))"
  by (simp add: update_def update_try_def split: option.split)




text \<open>
  Claim C4, as the code has it. For a result with \<open>found\<close> false the error markup is
  rendered with the collaborator's \<open>error\<close> text, or with \<open>No rate limit data found\<close> when
  that text is absent or empty; for \<open>found\<close> true without \<open>data\<close> the error markup is rendered
  with \<open>Rate limit data is undefined\<close>; for \<open>found\<close> true with \<open>data\<close> the success markup is
  rendered and the success is logged. An error markup is never a success markup, so the
  success markup is shown exactly in the last case.
\<close>

theorem update_routes_result:
  "(\<not> found r \<and> (error r = None \<or> error r = Some []) \<longrightarrow>
      update e this (Returns r) w =
        Inr (set_html this (getErrorHtml e (nonce (instances w ! this))
               (str ''No rate limit data found'')) w))
   \<and> (\<not> found r \<and> error r = Some s \<and> s \<noteq> [] \<longrightarrow>
      update e this (Returns r) w =
        Inr (set_html this (getErrorHtml e (nonce (instances w ! this)) s) w))
   \<and> (found r \<and> data r = None \<longrightarrow>
      update e this (Returns r) w =
        Inr (set_html this (getErrorHtml e (nonce (instances w ! this))
               (str ''Rate limit data is undefined'')) w))
   \<and> (found r \<and> data r = Some d \<longrightarrow>
      update e this (Returns r) w =
        Inr (log_call (str ''WebView updated successfully'') False
               (set_html this (getHtml e (nonce (instances w ! this)) d) w)))
   \<and> getErrorHtml e n m \<noteq> getHtml e n d'
   \<and> (this < length (instances w) \<longrightarrow> html (instances (set_html this h w) ! this) = h)"
  using getErrorHtml_not_getHtml[of e n m d']
  by (auto simp add: update_Returns or_else_def set_html_def)

text \<open>In the sample world: no data found without a message, no data found with the message
  \<open>boom\<close>, found without data, and found with a snapshot without windows.\<close>

theorem update_routes_result_witness:
  "update sample_env 0 (Returns \<lparr>found = False, data = None, error = None\<rparr>) sample_world
     = Inr (set_html 0 (getErrorHtml sample_env sample_nonce (str ''No rate limit data found''))
              sample_world)
   \<and> update sample_env 0 (Returns \<lparr>found = False, data = None, error = Some (str ''boom'')\<rparr>)
       sample_world
     = Inr (set_html 0 (getErrorHtml sample_env sample_nonce (str ''boom'')) sample_world)
   \<and> update sample_env 0 (Returns \<lparr>found = True, data = None, error = None\<rparr>) sample_world
     = Inr (set_html 0 (getErrorHtml sample_env sample_nonce (str ''Rate limit data is undefined''))
              sample_world)
   \<and> update sample_env 0
       (Returns \<lparr>found = True,
                 data = Some \<lparr>primary = None, secondary = None, total_usage = 0,
                               last_usage = 0, current_time = 0\<rparr>,
                 error = None\<rparr>) sample_world
     = Inr (log_call (str ''WebView updated successfully'') False
              (set_html 0
                 (getHtml sample_env sample_nonce
                    \<lparr>primary = None, secondary = None, total_usage = 0, last_usage = 0,
                      current_time = 0\<rparr>) sample_world))
   \<and> html (instances (set_html 0 (str ''x'') sample_world) ! 0) = str ''x''"
proof -
  note t = update_routes_result[where e = sample_env and this = 0 and w = sample_world]
  have n: "nonce (instances sample_world ! 0) = sample_nonce"
    by (simp add: sample_world_def)
  have l: "0 < length (instances sample_world)"
    by (simp add: sample_world_def)
  show ?thesis
    using t[where r = "\<lparr>found = False, data = None, error = None\<rparr>"]
      t[where r = "\<lparr>found = False, data = None, error = Some (str ''boom'')\<rparr>"
        and s = "str ''boom''"]
      t[where r = "\<lparr>found = True, data = None, error = None\<rparr>"]
      t[where r = "\<lparr>found = True,
                 data = Some \<lparr>primary = None, secondary = None, total_usage = 0,
                               last_usage = 0, current_time = 0\<rparr>,
                 error = None\<rparr>"
        and d = "\<lparr>primary = None, secondary = None, total_usage = 0, last_usage = 0,
                      current_time = 0\<rparr>"]
      t[where h = "str ''x''"] l
    unfolding n by (simp add: str_def)
qed

text \<open>
  Against claim C4 as stated: the collaborator supplies the empty string as \<open>error\<close>; the
  markup rendered is the one for the default message, which is not the markup for the
  message supplied.
\<close>

theorem update_empty_error_counterexample:
  "update sample_env 0 (Returns \<lparr>found = False, data = None, error = Some []\<rparr>) sample_world
     = Inr (set_html 0 (getErrorHtml sample_env sample_nonce (str ''No rate limit data found''))
              sample_world)
   \<and> getErrorHtml sample_env sample_nonce (str ''No rate limit data found'')
       \<noteq> getErrorHtml sample_env sample_nonce []"
proof -
  have "escapeHtml (str ''No rate limit data found'') \<noteq> escapeHtml []"
    by (simp add: escapeHtml_def replace_class_def HTML_SPECIAL_def in_class_def str_def)
  then have "getErrorHtml sample_env sample_nonce (str ''No rate limit data found'')
       \<noteq> getErrorHtml sample_env sample_nonce []"
    by (simp add: getErrorHtml_inj)
  moreover
  have "update sample_env 0 (Returns \<lparr>found = False, data = None, error = Some []\<rparr>) sample_world
     = Inr (set_html 0 (getErrorHtml sample_env sample_nonce (str ''No rate limit data found''))
              sample_world)"
    by (simp add: update_Returns or_else_def sample_world_def)
  ultimately show ?thesis by blast
qed

section \<open>\<open>createOrShow\<close>\<close>





end
